theory Spec2Isabelle
  imports Main "HOL-Library.Word"
begin

unbundle bit_operations_syntax

section \<open>Data model of \<open>src/native/os_x11_linux.cc\<close>\<close>

text \<open>
  Handles are X identifiers, \<open>uint32_t\<close> in xcb. The geometry reply carries the
  position as \<open>int16_t\<close> and the size as \<open>uint16_t\<close>; both are 16-bit words here,
  read with \<open>sint\<close> and \<open>uint\<close> where the source widens them.
\<close>

type_synonym xcb_window_t = "32 word"
type_synonym xcb_drawable_t = "32 word"

record TrackedWindow =
  window :: xcb_window_t
  frame :: xcb_window_t

record xcb_get_geometry_reply_t =
  geo_root :: xcb_window_t
  geo_x :: "16 word"
  geo_y :: "16 word"
  geo_width :: "16 word"
  geo_height :: "16 word"

record xcb_query_tree_reply_t =
  tree_root :: xcb_window_t
  tree_parent :: xcb_window_t
  tree_children :: "xcb_window_t list"

text \<open>
  Modelled from the spec: \<open>JSRectangle\<close> is declared in \<open>os.h\<close>, outside
  \<open>os_x11_linux.cc\<close>. The spec gives Bounds as \<open>{x, y, width, height}\<close> without a
  width for the numbers, so they are unbounded integers, and the value of the default
  constructor is the zeroed bounds.
\<close>

record JSRectangle =
  rx :: int
  ry :: int
  rwidth :: int
  rheight :: int

definition JSRectangle0 :: JSRectangle where
  "JSRectangle0 = \<lparr>rx = 0, ry = 0, rwidth = 0, rheight = 0\<rparr>"

text \<open>
  The connection as the program sees it during one call: the root window, the reply to a
  tree query and to a geometry query for each handle (\<open>None\<close> is the null reply), and the
  identifiers \<open>xcb_generate_id\<close> hands out, in the order of the calls.
\<close>

record xconn =
  rootWindow :: xcb_window_t
  xcb_query_tree_reply :: "xcb_window_t \<Rightarrow> xcb_query_tree_reply_t option"
  xcb_get_geometry_reply :: "xcb_drawable_t \<Rightarrow> xcb_get_geometry_reply_t option"
  xcb_generate_id :: "nat \<Rightarrow> 32 word"

text \<open>
  Everything the engine does to the outside, in program order: the xcb requests with
  their arguments, the stores to the two atomic flags, the operations on the thread
  object and on the registry, and the shared-memory transfer. The lines written to
  \<open>std::cout\<close> are left out.
\<close>

datatype action =
    xcb_query_tree xcb_window_t
  | xcb_get_geometry xcb_drawable_t
  | xcb_change_window_attributes xcb_window_t "32 word" "32 word list"
  | xcb_create_window "8 word" xcb_window_t xcb_window_t int int "16 word" "16 word"
      "16 word" "16 word" "32 word" "32 word" "32 word list"
  | xcb_map_window xcb_window_t
  | xcb_reparent_window xcb_window_t xcb_window_t int int
  | xcb_create_gc "32 word" xcb_drawable_t "32 word" "32 word list"
  | xcb_destroy_window xcb_window_t
  | xcb_configure_window xcb_window_t "16 word" "int list"
  | xcb_flush
  | xcb_composite_redirect_window xcb_window_t "8 word"
  | xcb_composite_name_window_pixmap xcb_window_t "32 word"
  | xcb_free_pixmap "32 word"
  | store_windowThreadShouldRun bool
  | store_windowThreadExists bool
  | thread_start "32 word"
  | thread_join
  | trackedWindows_push_back TrackedWindow
  | trackedWindows_clear
  | trackedWindows_erase xcb_window_t
  | shm_attach xcb_drawable_t
  | shm_copy xcb_drawable_t nat nat int int int int
  | shm_detach xcb_drawable_t

text \<open>Constants of the xcb headers that the source names.\<close>

definition XCB_COPY_FROM_PARENT :: "'a::len word" where "XCB_COPY_FROM_PARENT = 0"
definition XCB_WINDOW_CLASS_INPUT_OUTPUT :: "16 word" where "XCB_WINDOW_CLASS_INPUT_OUTPUT = 1"
definition XCB_CW_OVERRIDE_REDIRECT :: "32 word" where "XCB_CW_OVERRIDE_REDIRECT = 512"
definition XCB_CW_EVENT_MASK :: "32 word" where "XCB_CW_EVENT_MASK = 2048"
definition XCB_GC_FOREGROUND :: "32 word" where "XCB_GC_FOREGROUND = 4"
definition XCB_GC_BACKGROUND :: "32 word" where "XCB_GC_BACKGROUND = 8"
definition XCB_CONFIG_WINDOW_X :: "16 word" where "XCB_CONFIG_WINDOW_X = 1"
definition XCB_CONFIG_WINDOW_Y :: "16 word" where "XCB_CONFIG_WINDOW_Y = 2"
definition XCB_CONFIG_WINDOW_WIDTH :: "16 word" where "XCB_CONFIG_WINDOW_WIDTH = 4"
definition XCB_CONFIG_WINDOW_HEIGHT :: "16 word" where "XCB_CONFIG_WINDOW_HEIGHT = 8"
definition XCB_COMPOSITE_REDIRECT_AUTOMATIC :: "8 word" where
  "XCB_COMPOSITE_REDIRECT_AUTOMATIC = 0"

text \<open>
  The globals of the file. \<open>windowThread\<close> is the \<open>std::thread\<close> object: \<open>Some gc\<close>
  while it is joinable (started with graphics context \<open>gc\<close> and not yet joined).
\<close>

record engine =
  trackedWindows :: "TrackedWindow list"
  windowThread :: "32 word option"
  windowThreadExists :: bool
  windowThreadShouldRun :: bool
  requests :: "action list"

definition engine0 :: engine where
  "engine0 = \<lparr>trackedWindows = [], windowThread = None, windowThreadExists = False,
     windowThreadShouldRun = False, requests = []\<rparr>"

datatype fault =
    NullDereference
  | Terminate
  | SystemError
  | OutOfBoundsRead
  | RangeError string

definition emit :: "action \<Rightarrow> engine \<Rightarrow> engine" where
  "emit a s = s\<lparr>requests := requests s @ [a]\<rparr>"

section \<open>The registry and the embedding protocol\<close>

definition GetFrame :: "TrackedWindow list \<Rightarrow> xcb_window_t \<Rightarrow> xcb_window_t option" where
  "GetFrame tws win = map_option frame (find (\<lambda>w. window w = win) tws)"

text \<open>
  \<open>ensureConnection\<close> (declared in \<open>linux/x11.h\<close>) opens the shared connection on first
  use; the model starts from an open connection, where it does nothing.
\<close>

definition SetBounds :: "engine \<Rightarrow> xcb_window_t \<Rightarrow> JSRectangle \<Rightarrow> engine" where
  "SetBounds s h bounds =
    (case GetFrame (trackedWindows s) h of
       None \<Rightarrow> s
     | Some fr \<Rightarrow>
        emit xcb_flush
         (if rwidth bounds > 0 \<and> rheight bounds > 0 then
            emit (xcb_configure_window h
                   (XCB_CONFIG_WINDOW_X OR XCB_CONFIG_WINDOW_Y OR XCB_CONFIG_WINDOW_WIDTH
                      OR XCB_CONFIG_WINDOW_HEIGHT)
                   [0, 0, rwidth bounds, rheight bounds])
             (emit (xcb_configure_window fr
                     (XCB_CONFIG_WINDOW_X OR XCB_CONFIG_WINDOW_Y OR XCB_CONFIG_WINDOW_WIDTH
                        OR XCB_CONFIG_WINDOW_HEIGHT)
                     [rx bounds, ry bounds, rwidth bounds, rheight bounds]) s)
          else
            emit (xcb_configure_window fr (XCB_CONFIG_WINDOW_X OR XCB_CONFIG_WINDOW_Y)
                   [rx bounds, ry bounds]) s))"

text \<open>
  The thread function, seen from its inputs: each round loads \<open>windowThreadShouldRun\<close>
  and, when that is set, waits for an event (\<open>None\<close> is the null result of
  \<open>xcb_wait_for_event\<close>). \<open>Some b\<close> is the value it stores to \<open>windowThreadExists\<close> when
  it leaves the loop; \<open>None\<close> says that it is still waiting when the inputs end.
\<close>

fun WindowThread :: "(bool \<times> 8 word option) list \<Rightarrow> bool option" where
  "WindowThread [] = None"
| "WindowThread ((shouldRun, event) # rest) =
    (if shouldRun then
       (case event of Some response_type \<Rightarrow> WindowThread rest | None \<Rightarrow> Some False)
     else Some False)"

text \<open>
  \<open>std::thread::join\<close> throws \<open>std::system_error\<close> on a thread that is not joinable and
  otherwise returns once the thread function has returned, that is after
  \<open>WindowThread\<close> has stored \<open>False\<close> to \<open>windowThreadExists\<close>. Assigning a new thread
  to a joinable \<open>std::thread\<close> calls \<open>std::terminate\<close>.
\<close>

definition join :: "engine \<Rightarrow> fault + engine" where
  "join s =
    (case windowThread s of
       None \<Rightarrow> Inl SystemError
     | Some gc \<Rightarrow>
        Inr ((emit thread_join s)\<lparr>windowThread := None, windowThreadExists := False\<rparr>))"

definition start_thread :: "32 word \<Rightarrow> engine \<Rightarrow> fault + engine" where
  "start_thread gc s =
    (case windowThread s of
       Some old \<Rightarrow> Inl Terminate
     | None \<Rightarrow> Inr ((emit (thread_start gc) s)\<lparr>windowThread := Some gc\<rparr>))"

definition OSSetWindowParent ::
  "xconn \<Rightarrow> engine \<Rightarrow> xcb_window_t \<Rightarrow> xcb_window_t \<Rightarrow> fault + engine" where
  "OSSetWindowParent c s w p =
    (if p \<noteq> 0 then
       (let s1 = emit (xcb_get_geometry w) (emit (xcb_query_tree p) s) in
        case xcb_query_tree_reply c p of
          None \<Rightarrow> Inr s1
        | Some tree \<Rightarrow>
           if tree_parent tree \<noteq> tree_root tree then
             (let id = xcb_generate_id c 0;
                  s2 = (emit (trackedWindows_push_back \<lparr>window = w, frame = id\<rparr>) s1)
                         \<lparr>trackedWindows := trackedWindows s1 @ [\<lparr>window = w, frame = id\<rparr>]\<rparr>;
                  s3 = emit (xcb_change_window_attributes w XCB_CW_OVERRIDE_REDIRECT [1]) s2
              in case xcb_get_geometry_reply c w of
                   None \<Rightarrow> Inl NullDereference
                 | Some geometry \<Rightarrow>
                    (let s4 = emit (xcb_create_window XCB_COPY_FROM_PARENT id (tree_parent tree)
                                 0 0 (geo_width geometry) (geo_height geometry) 0
                                 XCB_WINDOW_CLASS_INPUT_OUTPUT XCB_COPY_FROM_PARENT
                                 (XCB_CW_OVERRIDE_REDIRECT OR XCB_CW_EVENT_MASK)
                                 [1, 33554431]) s3;
                         s5 = emit (xcb_map_window id) s4;
                         s6 = emit (xcb_reparent_window w id 0 0) s5
                     in if \<not> windowThreadExists s6 then
                          (let gc = xcb_generate_id c 1;
                               s7 = emit (xcb_create_gc gc id
                                      (XCB_GC_BACKGROUND OR XCB_GC_FOREGROUND)
                                      [0x80AAAAAA, 0x80FFFFFF]) s6;
                               s8 = (emit (store_windowThreadShouldRun True) s7)
                                      \<lparr>windowThreadShouldRun := True\<rparr>;
                               s9 = (emit (store_windowThreadExists True) s8)
                                      \<lparr>windowThreadExists := True\<rparr>
                           in case start_thread gc s9 of
                                Inl e \<Rightarrow> Inl e
                              | Inr s10 \<Rightarrow> Inr (emit xcb_flush s10))
                        else Inr (emit xcb_flush s6)))
           else Inr s1)
     else
       (case GetFrame (trackedWindows s) w of
          None \<Rightarrow> Inr s
        | Some fr \<Rightarrow>
           (let s1 = emit (xcb_reparent_window w (rootWindow c) 0 0) s in
            if length (trackedWindows s1) = 1 then
              (let s2 = (emit (store_windowThreadShouldRun False) s1)
                          \<lparr>windowThreadShouldRun := False\<rparr>;
                   s3 = emit xcb_flush (emit (xcb_destroy_window fr) s2)
               in case join s3 of
                    Inl e \<Rightarrow> Inl e
                  | Inr s4 \<Rightarrow> Inr ((emit trackedWindows_clear s4)\<lparr>trackedWindows := []\<rparr>))
            else
              (let s2 = emit xcb_flush (emit (xcb_destroy_window fr) s1)
               in Inr ((emit (trackedWindows_erase w) s2)
                        \<lparr>trackedWindows := filter (\<lambda>t. window t \<noteq> w) (trackedWindows s2)\<rparr>)))))"

text \<open>
  A run of the engine: calls of \<open>OSSetWindowParent\<close>, each with the connection as it
  answers during that call, and in between rounds of the event thread on the results of
  \<open>xcb_wait_for_event\<close> that arrive; in each round the thread loads the run flag as the
  last call left it. A fault ends the run.
\<close>

datatype call =
    SetWindowParent xconn xcb_window_t xcb_window_t
  | WindowThreadRuns "8 word option list"

definition thread_runs :: "8 word option list \<Rightarrow> engine \<Rightarrow> engine" where
  "thread_runs events s =
    (if windowThreadExists s then
       (case WindowThread (map (Pair (windowThreadShouldRun s)) events) of
          None \<Rightarrow> s
        | Some b \<Rightarrow> s\<lparr>windowThreadExists := b\<rparr>)
     else s)"

fun step :: "engine \<Rightarrow> call \<Rightarrow> fault + engine" where
  "step s (SetWindowParent c w p) = OSSetWindowParent c s w p"
| "step s (WindowThreadRuns events) = Inr (thread_runs events s)"

fun replay :: "engine \<Rightarrow> call list \<Rightarrow> fault + engine" where
  "replay s [] = Inr s"
| "replay s (x # xs) = (case step s x of Inl e \<Rightarrow> Inl e | Inr s' \<Rightarrow> replay s' xs)"

text \<open>
  A call is fresh when, if it is one that appends an entry (the parent handle is not
  zero and the tree query on it reports a parent other than the root), its window has no
  entry in the registry and the identifier that \<open>xcb_generate_id\<close> returns for the
  frame is not in use as the frame of an entry. The second is what \<open>xcb_generate_id\<close>
  gives when it succeeds; when it cannot allocate it returns \<open>0xFFFFFFFF\<close>, and the
  source uses the value without a check.
\<close>

fun fresh_call :: "engine \<Rightarrow> call \<Rightarrow> bool" where
  "fresh_call s (SetWindowParent c w p) =
    (case xcb_query_tree_reply c p of
       None \<Rightarrow> True
     | Some tree \<Rightarrow>
        p \<noteq> 0 \<and> tree_parent tree \<noteq> tree_root tree \<longrightarrow>
          w \<notin> set (map window (trackedWindows s)) \<and>
          xcb_generate_id c 0 \<notin> set (map frame (trackedWindows s)))"
| "fresh_call s (WindowThreadRuns events) = True"

fun fresh_calls :: "engine \<Rightarrow> call list \<Rightarrow> bool" where
  "fresh_calls s [] = True"
| "fresh_calls s (x # xs) =
    (fresh_call s x \<and> (case step s x of Inl e \<Rightarrow> True | Inr s' \<Rightarrow> fresh_calls s' xs))"

definition registry_unique :: "engine \<Rightarrow> bool" where
  "registry_unique s \<longleftrightarrow>
     distinct (map window (trackedWindows s)) \<and> distinct (map frame (trackedWindows s))"

definition thread_inv :: "engine \<Rightarrow> bool" where
  "thread_inv s \<longleftrightarrow>
     (trackedWindows s \<noteq> [] \<longrightarrow> windowThread s \<noteq> None) \<and>
     (windowThreadExists s \<longrightarrow> windowThread s \<noteq> None)"

section \<open>The geometry resolver\<close>

text \<open>
  \<open>GetClientBounds\<close>: the accumulators \<open>x\<close> and \<open>y\<close> have the type of the reply's
  fields, \<open>int16_t\<close>, so \<open>x += reply->x\<close> is the addition of 16-bit words. The loop
  has no bound of its own; it is a partial function, \<open>None\<close> where it does not return.
  Beside the bounds the function gives the queries it sent, in order.
\<close>

partial_function (option) GetClientBounds_loop ::
  "xconn \<Rightarrow> xcb_get_geometry_reply_t \<Rightarrow> 16 word \<Rightarrow> 16 word \<Rightarrow> xcb_window_t \<Rightarrow>
     ((16 word \<times> 16 word) \<times> action list) option" where
  "GetClientBounds_loop c reply x y win =
    (case xcb_query_tree_reply c win of
       None \<Rightarrow> Some ((x, y), [xcb_query_tree win])
     | Some replyTree \<Rightarrow>
        if tree_parent replyTree = geo_root reply then Some ((x, y), [xcb_query_tree win])
        else
          (case xcb_get_geometry_reply c (tree_parent replyTree) of
             None \<Rightarrow>
               Some ((x, y), [xcb_query_tree win, xcb_get_geometry (tree_parent replyTree)])
           | Some reply' \<Rightarrow>
               Option.bind
                 (GetClientBounds_loop c reply' (x + geo_x reply') (y + geo_y reply')
                    (tree_parent replyTree))
                 (\<lambda>(pos, rq).
                    Some (pos, xcb_query_tree win # xcb_get_geometry (tree_parent replyTree) # rq))))"

definition GetClientBounds :: "xconn \<Rightarrow> xcb_window_t \<Rightarrow> (JSRectangle \<times> action list) option" where
  "GetClientBounds c h =
    (case xcb_get_geometry_reply c h of
       None \<Rightarrow> Some (JSRectangle0, [xcb_get_geometry h])
     | Some reply \<Rightarrow>
        Option.bind (GetClientBounds_loop c reply (geo_x reply) (geo_y reply) h)
          (\<lambda>(pos, rq).
             Some (\<lparr>rx = sint (fst pos), ry = sint (snd pos),
                    rwidth = uint (geo_width reply), rheight = uint (geo_height reply)\<rparr>,
                   xcb_get_geometry h # rq)))"

text \<open>
  The walk in the words of the specification: \<open>ancestors_read c win reply anc\<close> says that,
  starting at \<open>win\<close> (whose geometry reply is \<open>reply\<close>), the ancestors whose geometry is
  read are exactly \<open>anc\<close>, each with its reply, and that the walk stops after the last of
  them: its parent is the root, or its tree query fails, or the geometry query on its
  parent fails. \<open>offset_sum\<close> is the sum of the offsets as integers.
\<close>

fun ancestors_read ::
  "xconn \<Rightarrow> xcb_window_t \<Rightarrow> xcb_get_geometry_reply_t \<Rightarrow>
     (xcb_window_t \<times> xcb_get_geometry_reply_t) list \<Rightarrow> bool" where
  "ancestors_read c win reply [] =
    (case xcb_query_tree_reply c win of
       None \<Rightarrow> True
     | Some t \<Rightarrow> tree_parent t = geo_root reply \<or>
                xcb_get_geometry_reply c (tree_parent t) = None)"
| "ancestors_read c win reply ((a, ga) # rest) =
    (case xcb_query_tree_reply c win of
       None \<Rightarrow> False
     | Some t \<Rightarrow> tree_parent t \<noteq> geo_root reply \<and> tree_parent t = a \<and>
                xcb_get_geometry_reply c a = Some ga \<and> ancestors_read c a ga rest)"

definition offset_sum ::
  "xcb_get_geometry_reply_t \<Rightarrow> (xcb_window_t \<times> xcb_get_geometry_reply_t) list \<Rightarrow> int \<times> int" where
  "offset_sum reply anc =
    (sint (geo_x reply) + sum_list (map (\<lambda>p. sint (geo_x (snd p))) anc),
     sint (geo_y reply) + sum_list (map (\<lambda>p. sint (geo_y (snd p))) anc))"

section \<open>The capture engine\<close>

text \<open>
  Modelled from the spec: \<open>CaptureMode\<close> and \<open>CaptureRect\<close> are declared in \<open>os.h\<close>.
  The spec names the modes Desktop and Window; \<open>OtherMode v\<close> stands for any other
  value of the enumeration. A capture rectangle is a region and the buffer its pixels
  go to (here the buffer's address and its size).
\<close>

datatype CaptureMode = Desktop | Window | OtherMode int

record CaptureRect =
  data :: nat
  size_bytes :: nat
  rect :: JSRectangle

text \<open>
  Modelled from the spec: class \<open>XShmCapture\<close> is defined in \<open>linux/shm.h\<close>. By the
  spec a shared memory segment is attached to the connection once per capture call
  (the constructor), each rectangle is a region copy from the drawable into the caller's
  buffer (\<open>copy\<close>), and the segment is detached at the end (the destructor).
\<close>

definition XShmCapture :: "xcb_drawable_t \<Rightarrow> action list" where
  "XShmCapture d = [shm_attach d]"

definition XShmCapture_copy ::
  "xcb_drawable_t \<Rightarrow> nat \<Rightarrow> nat \<Rightarrow> int \<Rightarrow> int \<Rightarrow> int \<Rightarrow> int \<Rightarrow> action list" where
  "XShmCapture_copy d target n x y w h = [shm_copy d target n x y w h]"

definition XShmCapture_release :: "xcb_drawable_t \<Rightarrow> action list" where
  "XShmCapture_release d = [shm_detach d]"

primrec desktop_rects :: "xcb_drawable_t \<Rightarrow> JSRectangle \<Rightarrow> CaptureRect list \<Rightarrow> action list" where
  "desktop_rects d offset [] = []"
| "desktop_rects d offset (r # rects) =
    XShmCapture_copy d (data r) (size_bytes r) (rx (rect r) + rx offset) (ry (rect r) + ry offset)
      (rwidth (rect r)) (rheight (rect r)) @ desktop_rects d offset rects"

primrec window_rects :: "xcb_drawable_t \<Rightarrow> CaptureRect list \<Rightarrow> action list" where
  "window_rects d [] = []"
| "window_rects d (r # rects) =
    XShmCapture_copy d (data r) (size_bytes r) (rx (rect r)) (ry (rect r))
      (rwidth (rect r)) (rheight (rect r)) @ window_rects d rects"

text \<open>
  The capture functions give the requests they send, in order. The acquirer of
  \<open>OSCaptureWindowMulti\<close> goes out of scope after \<open>xcb_free_pixmap\<close>; on the early
  return it has not been constructed.
\<close>

definition OSCaptureDesktopMulti ::
  "xconn \<Rightarrow> xcb_window_t \<Rightarrow> CaptureRect list \<Rightarrow> action list option" where
  "OSCaptureDesktopMulti c wnd rects =
    Option.bind (GetClientBounds c wnd)
      (\<lambda>(offset, rq).
         Some (XShmCapture (rootWindow c) @ rq @ desktop_rects (rootWindow c) offset rects @
               XShmCapture_release (rootWindow c)))"

definition OSCaptureWindowMulti :: "xconn \<Rightarrow> xcb_window_t \<Rightarrow> CaptureRect list \<Rightarrow> action list" where
  "OSCaptureWindowMulti c wnd rects =
    (let pixId = xcb_generate_id c 0;
         rq = [xcb_composite_redirect_window wnd XCB_COMPOSITE_REDIRECT_AUTOMATIC,
               xcb_composite_name_window_pixmap wnd pixId,
               xcb_get_geometry pixId]
     in case xcb_get_geometry_reply c pixId of
          None \<Rightarrow> rq @ [xcb_free_pixmap pixId]
        | Some reply \<Rightarrow>
            rq @ XShmCapture pixId @ window_rects pixId rects @ [xcb_free_pixmap pixId] @
              XShmCapture_release pixId)"

text \<open>
  \<open>OSCaptureMulti\<close>: \<open>None\<close> where the call does not return; otherwise the exception
  thrown, if any, and the requests sent.
\<close>

definition OSCaptureMulti ::
  "xconn \<Rightarrow> xcb_window_t \<Rightarrow> CaptureMode \<Rightarrow> CaptureRect list \<Rightarrow>
     (fault option \<times> action list) option" where
  "OSCaptureMulti c wnd mode rects =
    (case mode of
       Desktop \<Rightarrow> map_option (Pair None) (OSCaptureDesktopMulti c wnd rects)
     | Window \<Rightarrow> Some (None, OSCaptureWindowMulti c wnd rects)
     | OtherMode v \<Rightarrow> Some (Some (RangeError ''Capture mode not supported''), []))"

text \<open>
  The pixmaps and shared memory segments that a sequence of requests has created and
  not released.
\<close>

datatype resource = Pixmap "32 word" | ShmSegment xcb_drawable_t

definition holds :: "action \<Rightarrow> resource list \<Rightarrow> resource list" where
  "holds a rs =
    (case a of
       xcb_composite_name_window_pixmap w p \<Rightarrow> Pixmap p # rs
     | xcb_free_pixmap p \<Rightarrow> remove1 (Pixmap p) rs
     | shm_attach d \<Rightarrow> ShmSegment d # rs
     | shm_detach d \<Rightarrow> remove1 (ShmSegment d) rs
     | _ \<Rightarrow> rs)"

definition unreleased :: "action list \<Rightarrow> resource list" where
  "unreleased rq = fold holds rq []"

definition is_query :: "action \<Rightarrow> bool" where
  "is_query a = (case a of xcb_query_tree w \<Rightarrow> True | xcb_get_geometry d \<Rightarrow> True | _ \<Rightarrow> False)"

section \<open>Window discovery\<close>

text \<open>
  The window tree as the traversal meets it: for each window its handle, the reply to
  the \<open>WM_CLASS\<close> property request (the bytes of the value; \<open>None\<close> is the null reply)
  and the reply to the tree query on it (its children; \<open>None\<close> is the null reply).
  The depth counter is an \<open>unsigned int\<close>; a window tree cannot be \<open>2^32\<close> deep, so
  it is a natural number here.
\<close>

datatype xwindow =
  XWindow (handle: xcb_window_t) (wm_class: "string option") (subtree: "xwindow list option")

definition long_length :: nat where "long_length = 4096"

definition NUL :: char where "NUL = CHR 0x00"

definition strlen :: "string \<Rightarrow> nat" where
  "strlen buffer = length (takeWhile (\<lambda>ch. ch \<noteq> NUL) buffer)"

definition c_str :: "string \<Rightarrow> string" where
  "c_str p = takeWhile (\<lambda>ch. ch \<noteq> NUL) p"

text \<open>
  The test on a value of length \<open>0 < len < long_length\<close>: the value is copied into a
  zeroed buffer of \<open>long_length\<close> bytes and the class name starts behind the first string.
  When the value has \<open>long_length - 1\<close> bytes and none of them is zero, that place is one
  behind the buffer, and \<open>strcmp\<close> reads out of bounds.
\<close>

definition is_rs_class :: "string \<Rightarrow> fault + bool" where
  "is_rs_class v =
    (let buffer = v @ replicate (long_length - length v) NUL;
         classname = strlen buffer + 1
     in if classname \<ge> long_length then Inl OutOfBoundsRead
        else Inr (c_str (drop classname buffer) = ''RuneScape'' \<or>
                  c_str (drop classname buffer) = ''steam_app_1343400''))"

definition wm_class_match :: "string option \<Rightarrow> fault + bool" where
  "wm_class_match replyProp =
    (case replyProp of
       None \<Rightarrow> Inr False
     | Some v \<Rightarrow> if length v > 0 \<and> length v < long_length then is_rs_class v else Inr False)"

definition take_deepest ::
  "xcb_window_t \<Rightarrow> nat \<Rightarrow> xcb_window_t list \<times> nat \<Rightarrow> xcb_window_t list \<times> nat" where
  "take_deepest child depth st =
    (case st of (out, deepest) \<Rightarrow>
       if depth > deepest then ([child], depth)
       else if depth = deepest then (out @ [child], deepest)
       else (out, deepest))"

fun GetRsHandlesRecursively ::
    "xwindow \<Rightarrow> xcb_window_t list \<times> nat \<Rightarrow> nat \<Rightarrow> fault + xcb_window_t list \<times> nat"
  and for_children ::
    "xwindow list \<Rightarrow> xcb_window_t list \<times> nat \<Rightarrow> nat \<Rightarrow> fault + xcb_window_t list \<times> nat"
where
  "GetRsHandlesRecursively (XWindow h cls reply) st depth =
    (case reply of None \<Rightarrow> Inr st | Some children \<Rightarrow> for_children children st depth)"
| "for_children [] st depth = Inr st"
| "for_children (child # rest) st depth =
    (case wm_class_match (wm_class child) of
       Inl e \<Rightarrow> Inl e
     | Inr m \<Rightarrow>
        (case GetRsHandlesRecursively child
                (if m then take_deepest (handle child) depth st else st) (depth + 1) of
           Inl e \<Rightarrow> Inl e
         | Inr st' \<Rightarrow> for_children rest st' depth))"

definition OSGetRsHandles :: "xwindow \<Rightarrow> fault + xcb_window_t list" where
  "OSGetRsHandles root = map_sum id fst (GetRsHandlesRecursively root ([], 0) 0)"

text \<open>
  The result in the words of the specification. The descendants of a window, in the
  order of the traversal and each with its depth below the root; the class name of a
  property value, its second null-terminated string; a match; and the matches at the
  largest depth at which there is one.
\<close>

fun descendants :: "xwindow \<Rightarrow> nat \<Rightarrow> (xwindow \<times> nat) list"
  and descendants_of_children :: "xwindow list \<Rightarrow> nat \<Rightarrow> (xwindow \<times> nat) list"
where
  "descendants (XWindow h cls reply) depth =
    (case reply of None \<Rightarrow> [] | Some children \<Rightarrow> descendants_of_children children depth)"
| "descendants_of_children [] depth = []"
| "descendants_of_children (child # rest) depth =
    (child, depth) # descendants child (depth + 1) @ descendants_of_children rest depth"

definition class_name :: "string \<Rightarrow> string" where
  "class_name v =
    takeWhile (\<lambda>ch. ch \<noteq> NUL) (drop (Suc (length (takeWhile (\<lambda>ch. ch \<noteq> NUL) v))) v)"

definition rs_match :: "xwindow \<Rightarrow> bool" where
  "rs_match w =
    (case wm_class w of
       None \<Rightarrow> False
     | Some v \<Rightarrow> 0 < length v \<and> length v < long_length \<and>
                 class_name v \<in> {''RuneScape'', ''steam_app_1343400''})"

definition deepest_matches :: "xwindow \<Rightarrow> xcb_window_t list" where
  "deepest_matches root =
    (let ms = filter (\<lambda>m. rs_match (fst m)) (descendants root 0)
     in map (\<lambda>m. handle (fst m)) (filter (\<lambda>m. snd m = Max (snd ` set ms)) ms))"

text \<open>
  The reads of the traversal stay inside the buffer when every descendant's value of
  \<open>long_length - 1\<close> bytes has a zero byte.
\<close>

definition terminated :: "xwindow \<Rightarrow> bool" where
  "terminated w =
    (case wm_class w of
       None \<Rightarrow> True
     | Some v \<Rightarrow> length v = long_length - 1 \<longrightarrow> NUL \<in> set v)"

definition in_bounds :: "xwindow \<Rightarrow> bool" where
  "in_bounds root = (\<forall>m \<in> set (descendants root 0). terminated (fst m))"

definition absorb :: "xwindow \<times> nat \<Rightarrow> xcb_window_t list \<times> nat \<Rightarrow> xcb_window_t list \<times> nat" where
  "absorb m st = (if rs_match (fst m) then take_deepest (handle (fst m)) (snd m) st else st)"

definition max_depth :: "(xwindow \<times> nat) list \<Rightarrow> nat" where
  "max_depth ms = foldr (\<lambda>m k. max (snd m) k) ms 0"

section \<open>Example connections, states and window trees\<close>

text \<open>
  A connection on which window 7 is nested (its parent is 3, the root is 1), window 8 is
  top-level, every geometry query succeeds, and identifiers are handed out from \<open>base\<close>.
\<close>

definition nested_conn :: "32 word \<Rightarrow> xconn" where
  "nested_conn base =
    \<lparr>rootWindow = 1,
     xcb_query_tree_reply =
       (\<lambda>w. if w = 7 then Some \<lparr>tree_root = 1, tree_parent = 3, tree_children = []\<rparr>
            else if w = 8 then Some \<lparr>tree_root = 1, tree_parent = 1, tree_children = []\<rparr>
            else None),
     xcb_get_geometry_reply =
       (\<lambda>d. Some \<lparr>geo_root = 1, geo_x = 0, geo_y = 0, geo_width = 800, geo_height = 600\<rparr>),
     xcb_generate_id = (\<lambda>n. base + of_nat n)\<rparr>"

text \<open>
  The same connection when no identifier can be allocated: \<open>xcb_generate_id\<close> returns
  \<open>0xFFFFFFFF\<close> each time.
\<close>

definition exhausted_conn :: xconn where
  "exhausted_conn = (nested_conn 0)\<lparr>xcb_generate_id := (\<lambda>n. 0xFFFFFFFF)\<rparr>"

text \<open>The engine after window 5 has been embedded beside window 7 on \<open>nested_conn 100\<close>.\<close>

definition one_embedded :: engine where
  "one_embedded =
    \<lparr>trackedWindows = [\<lparr>window = 5, frame = 100\<rparr>],
     windowThread = Some 101, windowThreadExists = True, windowThreadShouldRun = True,
     requests =
       [xcb_query_tree 7, xcb_get_geometry 5,
        trackedWindows_push_back \<lparr>window = 5, frame = 100\<rparr>,
        xcb_change_window_attributes 5 XCB_CW_OVERRIDE_REDIRECT [1],
        xcb_create_window XCB_COPY_FROM_PARENT 100 3 0 0 800 600 0
          XCB_WINDOW_CLASS_INPUT_OUTPUT XCB_COPY_FROM_PARENT
          (XCB_CW_OVERRIDE_REDIRECT OR XCB_CW_EVENT_MASK) [1, 33554431],
        xcb_map_window 100,
        xcb_reparent_window 5 100 0 0,
        xcb_create_gc 101 100 (XCB_GC_BACKGROUND OR XCB_GC_FOREGROUND) [0x80AAAAAA, 0x80FFFFFF],
        store_windowThreadShouldRun True,
        store_windowThreadExists True,
        thread_start 101,
        xcb_flush]\<rparr>"

text \<open>
  Window 30 at offset (40, 50) inside window 20, which is at (60, 150) below the root;
  no other handle answers.
\<close>

definition view_reply30 :: xcb_get_geometry_reply_t where
  "view_reply30 = \<lparr>geo_root = 1, geo_x = 40, geo_y = 50, geo_width = 640, geo_height = 480\<rparr>"

definition view_reply20 :: xcb_get_geometry_reply_t where
  "view_reply20 = \<lparr>geo_root = 1, geo_x = 60, geo_y = 150, geo_width = 800, geo_height = 600\<rparr>"

definition view_conn :: xconn where
  "view_conn =
    \<lparr>rootWindow = 1,
     xcb_query_tree_reply =
       (\<lambda>w. if w = 30 then Some \<lparr>tree_root = 1, tree_parent = 20, tree_children = []\<rparr>
            else if w = 20 then Some \<lparr>tree_root = 1, tree_parent = 1, tree_children = [30]\<rparr>
            else None),
     xcb_get_geometry_reply =
       (\<lambda>d. if d = 30 then Some view_reply30 else if d = 20 then Some view_reply20 else None),
     xcb_generate_id = (\<lambda>n. 4096 + of_nat n)\<rparr>"

text \<open>Window 3 at offset (20000, 100) inside window 2, which is at (20000, 50).\<close>

definition far_reply3 :: xcb_get_geometry_reply_t where
  "far_reply3 = \<lparr>geo_root = 1, geo_x = 20000, geo_y = 100, geo_width = 640, geo_height = 480\<rparr>"

definition far_reply2 :: xcb_get_geometry_reply_t where
  "far_reply2 = \<lparr>geo_root = 1, geo_x = 20000, geo_y = 50, geo_width = 800, geo_height = 600\<rparr>"

definition far_conn :: xconn where
  "far_conn =
    \<lparr>rootWindow = 1,
     xcb_query_tree_reply =
       (\<lambda>w. if w = 3 then Some \<lparr>tree_root = 1, tree_parent = 2, tree_children = []\<rparr>
            else if w = 2 then Some \<lparr>tree_root = 1, tree_parent = 1, tree_children = [3]\<rparr>
            else None),
     xcb_get_geometry_reply =
       (\<lambda>d. if d = 3 then Some far_reply3 else if d = 2 then Some far_reply2 else None),
     xcb_generate_id = (\<lambda>n. 4096 + of_nat n)\<rparr>"

text \<open>
  A window tree with matches at depth 0 (window 10), depth 2 (12 and 13) and depth 4
  (15 and 16), and at depth 5 a window whose class name is RuneScape in a value of
  exactly \<open>long_length\<close> bytes.
\<close>

definition rs_value :: string where
  "rs_value = ''RuneScape'' @ [NUL] @ ''RuneScape'' @ [NUL]"

definition steam_value :: string where
  "steam_value = ''steam'' @ [NUL] @ ''steam_app_1343400'' @ [NUL]"

definition capped_value :: string where
  "capped_value = ''rs'' @ [NUL] @ ''RuneScape'' @ replicate 4084 NUL"

definition leaf :: "xcb_window_t \<Rightarrow> string option \<Rightarrow> xwindow" where
  "leaf h v = XWindow h v (Some [])"

text \<open>
  A root with two children: window 10 with the class RuneScape, and window 11 whose
  value is 4095 bytes, none of them zero.
\<close>

definition unterminated_value :: string where
  "unterminated_value = replicate 4095 (CHR ''A'')"

definition unterminated_tree :: xwindow where
  "unterminated_tree =
    XWindow 1 None (Some [leaf 10 (Some rs_value), leaf 11 (Some unterminated_value)])"

definition demo_tree :: xwindow where
  "demo_tree =
    XWindow 1 None (Some
      [XWindow 10 (Some rs_value) (Some
         [XWindow 11 (Some ''xterm'') (Some
            [leaf 12 (Some rs_value),
             XWindow 13 (Some steam_value) (Some
               [XWindow 14 None (Some
                  [leaf 15 (Some rs_value),
                   XWindow 16 (Some steam_value) None,
                   XWindow 17 (Some ''Wine'') (Some [leaf 18 (Some capped_value)])])])])]),
       leaf 20 None])"


section \<open>The registry and the embedding protocol: proofs\<close>

lemma GetFrame_None_iff: "GetFrame tws w = None \<longleftrightarrow> w \<notin> set (map window tws)"
  by (induction tws) (auto simp: GetFrame_def)

lemma WindowThread_stores_False: "WindowThread obs = Some b \<Longrightarrow> b = False"
  by (induction obs rule: WindowThread.induct) (auto split: if_splits option.splits)

lemma thread_runs_registry [simp]: "trackedWindows (thread_runs events s) = trackedWindows s"
  by (simp add: thread_runs_def split: option.splits)

lemma OSSetWindowParent_registry:
  assumes "OSSetWindowParent c s w p = Inr s'"
  shows "trackedWindows s' = trackedWindows s \<or>
         (\<exists>tree. p \<noteq> 0 \<and> xcb_query_tree_reply c p = Some tree \<and>
            tree_parent tree \<noteq> tree_root tree \<and>
            trackedWindows s' = trackedWindows s @ [\<lparr>window = w, frame = xcb_generate_id c 0\<rparr>]) \<or>
         (p = 0 \<and> (trackedWindows s' = [] \<or>
            trackedWindows s' = filter (\<lambda>t. window t \<noteq> w) (trackedWindows s)))"
  using assms
  by (auto simp: OSSetWindowParent_def Let_def emit_def join_def start_thread_def
           split: if_splits option.splits sum.splits)

lemma distinct_map_filter_keep: "distinct (map f xs) \<Longrightarrow> distinct (map f (filter P xs))"
  by (induction xs) auto

lemma step_registry_unique:
  assumes "registry_unique s" and "fresh_call s x" and "step s x = Inr s'"
  shows "registry_unique s'"
proof (cases x)
  case (SetWindowParent c w p)
  with assms(3) have "OSSetWindowParent c s w p = Inr s'" by simp
  from OSSetWindowParent_registry [OF this] assms(1,2) SetWindowParent show ?thesis
    by (auto simp: registry_unique_def distinct_map_filter_keep)
next
  case (WindowThreadRuns obs)
  with assms show ?thesis by (auto simp: registry_unique_def)
qed

lemma replay_registry_unique:
  "registry_unique s \<Longrightarrow> fresh_calls s cs \<Longrightarrow> replay s cs = Inr s' \<Longrightarrow> registry_unique s'"
proof (induction cs arbitrary: s)
  case Nil
  then show ?case by simp
next
  case (Cons x xs)
  then show ?case
    by (cases "step s x") (auto dest: step_registry_unique)
qed

lemma OSSetWindowParent_thread_inv:
  assumes "thread_inv s" and "OSSetWindowParent c s w p = Inr s'"
  shows "thread_inv s'"
  using assms
  by (auto simp: OSSetWindowParent_def Let_def emit_def join_def start_thread_def thread_inv_def
           split: if_splits option.splits sum.splits)

lemma step_thread_inv:
  assumes "thread_inv s" and "step s x = Inr s'"
  shows "thread_inv s'"
proof (cases x)
  case (SetWindowParent c w p)
  with assms show ?thesis by (auto dest: OSSetWindowParent_thread_inv)
next
  case (WindowThreadRuns obs)
  with assms show ?thesis
    by (auto simp: thread_inv_def thread_runs_def dest: WindowThread_stores_False
             split: option.splits if_splits)
qed

lemma replay_thread_inv:
  "thread_inv s \<Longrightarrow> replay s cs = Inr s' \<Longrightarrow> thread_inv s'"
proof (induction cs arbitrary: s)
  case Nil
  then show ?case by simp
next
  case (Cons x xs)
  then show ?case
    by (cases "step s x") (auto dest: step_thread_inv)
qed

lemma engine0_registry: "trackedWindows engine0 = []"
  by (simp add: engine0_def)

lemma nested_tree7:
  "xcb_query_tree_reply (nested_conn base) 7 =
     Some \<lparr>tree_root = 1, tree_parent = 3, tree_children = []\<rparr>"
  by (simp add: nested_conn_def)

lemma embed_first:
  "OSSetWindowParent (nested_conn 100) engine0 5 7 = Inr one_embedded"
  by (simp add: OSSetWindowParent_def nested_conn_def engine0_def one_embedded_def Let_def
        emit_def start_thread_def)

text \<open>
  C1, as the code has it. Take a run from the initial state in which every call that
  appends an entry is fresh: its window has no entry at that moment, and the identifier
  that \<open>xcb_generate_id\<close> returns for the frame is not in use as the frame of an entry.
  Then after every call the window handles of the registry are pairwise distinct, and so
  are its frame handles.
\<close>

theorem registry_unique_replay:
  assumes "fresh_calls engine0 cs" and "replay engine0 cs = Inr s"
  shows "distinct (map window (trackedWindows s)) \<and> distinct (map frame (trackedWindows s))"
proof -
  have "registry_unique engine0" by (simp add: registry_unique_def engine0_def)
  from replay_registry_unique [OF this assms] show ?thesis by (simp add: registry_unique_def)
qed

text \<open>
  Embed 5, let the event thread handle one event, embed 6, ask to embed 5 beside the
  top-level window 8 (nothing is appended), embed 9, un-embed 6: the registry holds the
  entries of 5 and 9.
\<close>

theorem registry_unique_replay_witness:
  "fresh_calls engine0
     [SetWindowParent (nested_conn 100) 5 7, WindowThreadRuns [Some 12],
      SetWindowParent (nested_conn 200) 6 7, SetWindowParent (nested_conn 300) 5 8,
      SetWindowParent (nested_conn 400) 9 7, SetWindowParent (nested_conn 500) 6 0] \<and>
   map_sum id trackedWindows
     (replay engine0
       [SetWindowParent (nested_conn 100) 5 7, WindowThreadRuns [Some 12],
        SetWindowParent (nested_conn 200) 6 7, SetWindowParent (nested_conn 300) 5 8,
        SetWindowParent (nested_conn 400) 9 7, SetWindowParent (nested_conn 500) 6 0]) =
     Inr [\<lparr>window = 5, frame = 100\<rparr>, \<lparr>window = 9, frame = 400\<rparr>] \<and>
   distinct (map window [\<lparr>window = 5, frame = 100\<rparr>, \<lparr>window = 9, frame = 400\<rparr>]) \<and>
   distinct (map frame [\<lparr>window = 5, frame = 100\<rparr>, \<lparr>window = 9, frame = 400\<rparr>])"
proof -
  let ?cs = "[SetWindowParent (nested_conn 100) 5 7, WindowThreadRuns [Some 12],
      SetWindowParent (nested_conn 200) 6 7, SetWindowParent (nested_conn 300) 5 8,
      SetWindowParent (nested_conn 400) 9 7, SetWindowParent (nested_conn 500) 6 0]"
  have run: "\<exists>s. replay engine0 ?cs = Inr s \<and>
      trackedWindows s = [\<lparr>window = 5, frame = 100\<rparr>, \<lparr>window = 9, frame = 400\<rparr>]"
    by (simp add: embed_first)
       (simp add: thread_runs_def OSSetWindowParent_def nested_conn_def one_embedded_def
          Let_def emit_def GetFrame_def)
  then obtain s where s: "replay engine0 ?cs = Inr s"
    and tw: "trackedWindows s = [\<lparr>window = 5, frame = 100\<rparr>, \<lparr>window = 9, frame = 400\<rparr>]"
    by blast
  have fresh: "fresh_calls engine0 ?cs"
    by (simp add: embed_first engine0_registry nested_tree7)
       (simp add: thread_runs_def OSSetWindowParent_def nested_conn_def one_embedded_def
          Let_def emit_def GetFrame_def)
  from registry_unique_replay [OF fresh s] fresh s tw show ?thesis by simp
qed

text \<open>
  C1 as stated fails in both halves. Nothing stops a second request to embed a window
  that is already embedded: the registry then holds two entries for window 5. And the
  value of \<open>xcb_generate_id\<close> is used unchecked: when no identifier can be allocated it
  is \<open>0xFFFFFFFF\<close> each time, and the entries of windows 5 and 6 have the same frame.
\<close>

theorem registry_duplicates:
  "map_sum id trackedWindows
     (replay engine0
       [SetWindowParent (nested_conn 100) 5 7, SetWindowParent (nested_conn 200) 5 7]) =
     Inr [\<lparr>window = 5, frame = 100\<rparr>, \<lparr>window = 5, frame = 200\<rparr>] \<and>
   map_sum id trackedWindows
     (replay engine0
       [SetWindowParent exhausted_conn 5 7, SetWindowParent exhausted_conn 6 7]) =
     Inr [\<lparr>window = 5, frame = 0xFFFFFFFF\<rparr>, \<lparr>window = 6, frame = 0xFFFFFFFF\<rparr>]"
proof
  show "map_sum id trackedWindows
     (replay engine0
       [SetWindowParent (nested_conn 100) 5 7, SetWindowParent (nested_conn 200) 5 7]) =
     Inr [\<lparr>window = 5, frame = 100\<rparr>, \<lparr>window = 5, frame = 200\<rparr>]"
    by (simp add: embed_first)
       (simp add: OSSetWindowParent_def nested_conn_def one_embedded_def Let_def emit_def)
  show "map_sum id trackedWindows
     (replay engine0
       [SetWindowParent exhausted_conn 5 7, SetWindowParent exhausted_conn 6 7]) =
     Inr [\<lparr>window = 5, frame = 0xFFFFFFFF\<rparr>, \<lparr>window = 6, frame = 0xFFFFFFFF\<rparr>]"
    by (simp add: OSSetWindowParent_def exhausted_conn_def nested_conn_def engine0_def Let_def
          emit_def start_thread_def)
qed

text \<open>
  C2. When the parent handle is not zero and the tree query on it reports a parent equal
  to the tree root, the call sends the two queries (the tree of the parent, the geometry
  of the window) and nothing else: the registry, the thread object and both flags are as
  before, no frame is created and the window is not reparented.
\<close>

theorem SetParent_top_level_parent:
  assumes "p \<noteq> 0" and "xcb_query_tree_reply c p = Some tree"
    and "tree_parent tree = tree_root tree"
  shows "OSSetWindowParent c s w p =
           Inr (s\<lparr>requests := requests s @ [xcb_query_tree p, xcb_get_geometry w]\<rparr>)"
  using assms by (simp add: OSSetWindowParent_def emit_def)

theorem SetParent_top_level_parent_witness:
  "(8 :: 32 word) \<noteq> 0 \<and>
   xcb_query_tree_reply (nested_conn 100) 8 =
     Some \<lparr>tree_root = 1, tree_parent = 1, tree_children = []\<rparr> \<and>
   OSSetWindowParent (nested_conn 100) one_embedded 5 8 =
     Inr (one_embedded\<lparr>requests := requests one_embedded @
            [xcb_query_tree 8, xcb_get_geometry 5]\<rparr>)"
proof -
  have q: "xcb_query_tree_reply (nested_conn 100) 8 =
      Some \<lparr>tree_root = 1, tree_parent = 1, tree_children = []\<rparr>"
    by (simp add: nested_conn_def)
  have nz: "(8 :: 32 word) \<noteq> 0" by simp
  from SetParent_top_level_parent [OF nz q, of one_embedded 5] nz q show ?thesis by simp
qed

text \<open>
  C3. In a state that a run from the initial state has reached and whose registry is the
  one entry of \<open>w\<close>, \<open>SetParent(w, 0)\<close> returns without a fault, and what it does is, in
  this order: reparent \<open>w\<close> to the root, clear the run flag, destroy the frame of \<open>w\<close>,
  flush, join the event thread, clear the registry. Afterwards the registry is empty,
  the thread object is not joinable and \<open>windowThreadExists\<close> is false.
\<close>

theorem unembed_last:
  assumes "replay engine0 cs = Inr s"
    and "trackedWindows s = [\<lparr>window = w, frame = fr\<rparr>]"
  shows "OSSetWindowParent c s w 0 =
           Inr (s\<lparr>trackedWindows := [], windowThread := None, windowThreadExists := False,
                  windowThreadShouldRun := False,
                  requests := requests s @
                    [xcb_reparent_window w (rootWindow c) 0 0,
                     store_windowThreadShouldRun False,
                     xcb_destroy_window fr,
                     xcb_flush,
                     thread_join,
                     trackedWindows_clear]\<rparr>)"
proof -
  have "thread_inv engine0" by (simp add: thread_inv_def engine0_def)
  from replay_thread_inv [OF this assms(1)] assms(2)
  obtain gc where gc: "windowThread s = Some gc" by (auto simp: thread_inv_def)
  show ?thesis
    by (simp add: OSSetWindowParent_def GetFrame_def Let_def emit_def join_def gc assms(2))
qed

theorem unembed_last_witness:
  "replay engine0 [SetWindowParent (nested_conn 100) 5 7] = Inr one_embedded \<and>
   trackedWindows one_embedded = [\<lparr>window = 5, frame = 100\<rparr>] \<and>
   OSSetWindowParent (nested_conn 200) one_embedded 5 0 =
     Inr (one_embedded\<lparr>trackedWindows := [], windowThread := None,
            windowThreadExists := False, windowThreadShouldRun := False,
            requests := requests one_embedded @
              [xcb_reparent_window 5 1 0 0,
               store_windowThreadShouldRun False,
               xcb_destroy_window 100,
               xcb_flush,
               thread_join,
               trackedWindows_clear]\<rparr>)"
proof -
  have run: "replay engine0 [SetWindowParent (nested_conn 100) 5 7] = Inr one_embedded"
    by (simp add: embed_first)
  have tw: "trackedWindows one_embedded = [\<lparr>window = 5, frame = 100\<rparr>]"
    by (simp add: one_embedded_def)
  have root: "rootWindow (nested_conn 200) = 1" by (simp add: nested_conn_def)
  from unembed_last [OF run tw, of "nested_conn 200"] run tw root show ?thesis by simp
qed

text \<open>
  C9. For a window with no entry in the registry, \<open>SetParent(w, 0)\<close> returns without a
  fault and leaves the whole state as it was: no request is sent, and the registry, the
  thread object and the flags are unchanged.
\<close>

theorem unembed_untracked:
  assumes "w \<notin> set (map window (trackedWindows s))"
  shows "OSSetWindowParent c s w 0 = Inr s"
  using assms by (simp add: OSSetWindowParent_def GetFrame_None_iff [symmetric] del: set_map)

theorem unembed_untracked_witness:
  "(6 :: 32 word) \<notin> set (map window (trackedWindows one_embedded)) \<and>
   OSSetWindowParent (nested_conn 200) one_embedded 6 0 = Inr one_embedded"
proof -
  have a: "(6 :: 32 word) \<notin> set (map window (trackedWindows one_embedded))"
    by (simp add: one_embedded_def)
  from unembed_untracked [OF a, of "nested_conn 200"] a show ?thesis by simp
qed

text \<open>
  C10. \<open>SetBounds\<close> on a handle with no entry in the registry sends nothing. When the
  handle has a frame and the width or the height asked for is not positive, it sends
  one configure request, to the frame, with the mask of x and y only and the two
  coordinates, and then flushes; no request carries a size.
\<close>

theorem SetBounds_frame_effect:
  "(h \<notin> set (map window (trackedWindows s)) \<longrightarrow> SetBounds s h b = s) \<and>
   (GetFrame (trackedWindows s) h = Some fr \<and> \<not> (rwidth b > 0 \<and> rheight b > 0) \<longrightarrow>
      SetBounds s h b =
        s\<lparr>requests := requests s @
             [xcb_configure_window fr (XCB_CONFIG_WINDOW_X OR XCB_CONFIG_WINDOW_Y) [rx b, ry b],
              xcb_flush]\<rparr>)"
  by (auto simp: SetBounds_def emit_def GetFrame_None_iff [symmetric] simp del: set_map)

theorem SetBounds_frame_effect_witness:
  "(6 :: 32 word) \<notin> set (map window (trackedWindows one_embedded)) \<and>
   SetBounds one_embedded 6 \<lparr>rx = 3, ry = 4, rwidth = 0, rheight = 10\<rparr> = one_embedded \<and>
   GetFrame (trackedWindows one_embedded) 5 = Some 100 \<and>
   \<not> (rwidth \<lparr>rx = 3, ry = 4, rwidth = 0, rheight = 10\<rparr> > 0 \<and>
      rheight \<lparr>rx = 3, ry = 4, rwidth = 0, rheight = 10\<rparr> > 0) \<and>
   SetBounds one_embedded 5 \<lparr>rx = 3, ry = 4, rwidth = 0, rheight = 10\<rparr> =
     one_embedded\<lparr>requests := requests one_embedded @
       [xcb_configure_window 100 (XCB_CONFIG_WINDOW_X OR XCB_CONFIG_WINDOW_Y) [3, 4],
        xcb_flush]\<rparr>"
proof -
  have a: "(6 :: 32 word) \<notin> set (map window (trackedWindows one_embedded))"
    by (simp add: one_embedded_def)
  have f: "GetFrame (trackedWindows one_embedded) 5 = Some 100"
    by (simp add: one_embedded_def GetFrame_def)
  from SetBounds_frame_effect
      [where h = 6 and s = one_embedded and b = "\<lparr>rx = 3, ry = 4, rwidth = 0, rheight = 10\<rparr>"]
    SetBounds_frame_effect
      [where h = 5 and s = one_embedded and fr = 100
         and b = "\<lparr>rx = 3, ry = 4, rwidth = 0, rheight = 10\<rparr>"]
    a f show ?thesis by simp
qed


section \<open>The geometry resolver: proofs\<close>

lemma loop_sums:
  "ancestors_read c win reply anc \<Longrightarrow>
   map_option fst (GetClientBounds_loop c reply x y win) =
     Some (x + sum_list (map (\<lambda>p. geo_x (snd p)) anc),
           y + sum_list (map (\<lambda>p. geo_y (snd p)) anc))"
proof (induction anc arbitrary: win reply x y)
  case Nil
  then show ?case
    by (subst GetClientBounds_loop.simps) (auto split: option.splits)
next
  case (Cons p rest)
  obtain a ga where p: "p = (a, ga)" by (cases p)
  from Cons.prems p obtain t where t: "xcb_query_tree_reply c win = Some t"
    "a \<noteq> geo_root reply" "tree_parent t = a"
    "xcb_get_geometry_reply c a = Some ga" "ancestors_read c a ga rest"
    by (auto split: option.splits)
  from Cons.IH [OF t(5), of "x + geo_x ga" "y + geo_y ga"]
  obtain rq where "GetClientBounds_loop c ga (x + geo_x ga) (y + geo_y ga) a =
     Some ((x + geo_x ga + sum_list (map (\<lambda>p. geo_x (snd p)) rest),
            y + geo_y ga + sum_list (map (\<lambda>p. geo_y (snd p)) rest)), rq)"
    by auto
  then show ?case
    by (subst GetClientBounds_loop.simps) (simp add: t p add.assoc)
qed

lemma signed_take_bit_add_right:
  "signed_take_bit n (k + signed_take_bit n l) = signed_take_bit n (k + l)" for k l :: int
  by (metis signed_take_bit_add signed_take_bit_signed_take_bit min.idem)

lemma sint_add16: "sint (a + b :: 16 word) = signed_take_bit 15 (sint a + sint b)"
proof -
  have "LENGTH(16) - 1 = (15 :: nat)" by simp
  with sint_word_ariths(1) [of a b] show ?thesis by (simp only:)
qed

lemma sint_sum_list16:
  "sint (a + sum_list ws :: 16 word) = signed_take_bit 15 (sint a + sum_list (map sint ws))"
proof (induction ws arbitrary: a)
  case Nil
  have "- (2 ^ 15) \<le> sint a \<and> sint a < 2 ^ 15"
    using sint_range_size [of a] by (simp add: word_size)
  then have "signed_take_bit 15 (sint a) = sint a"
    by (simp add: signed_take_bit_int_eq_self_iff)
  then show ?case by simp
next
  case (Cons w ws)
  have "sint (a + (w + sum_list ws)) = sint (a + w + sum_list ws)"
    by (simp add: add.assoc)
  also have "\<dots> = signed_take_bit 15 (sint (a + w) + sum_list (map sint ws))"
    by (rule Cons.IH)
  also have "\<dots> = signed_take_bit 15 (sum_list (map sint ws) + signed_take_bit 15 (sint a + sint w))"
    by (simp only: sint_add16 add.commute)
  also have "\<dots> = signed_take_bit 15 (sum_list (map sint ws) + (sint a + sint w))"
    by (rule signed_take_bit_add_right)
  finally show ?case by (simp add: add.assoc add.commute add.left_commute)
qed

lemma wrapped_offsets:
  "sint (geo_x reply + sum_list (map (\<lambda>p. geo_x (snd p)) anc)) =
     signed_take_bit 15 (fst (offset_sum reply anc))"
  "sint (geo_y reply + sum_list (map (\<lambda>p. geo_y (snd p)) anc)) =
     signed_take_bit 15 (snd (offset_sum reply anc))"
  using sint_sum_list16 [of "geo_x reply" "map (\<lambda>p. geo_x (snd p)) anc"]
    sint_sum_list16 [of "geo_y reply" "map (\<lambda>p. geo_y (snd p)) anc"]
  by (simp_all add: offset_sum_def comp_def)

text \<open>
  C4, as the code has it. When the geometry query on the handle fails, the bounds are
  zeroed. When it succeeds, the width and height are the handle's own, and the position
  is the handle's offset plus the offsets of the ancestors read on the way up (until the
  parent is the root, or a tree or geometry query fails: then the sum so far is kept),
  the sum being taken in the 16-bit signed arithmetic of the reply's fields: it is the
  integer sum wrapped into the range from -32768 to 32767, and so the integer sum itself
  when that lies in the range.
\<close>

theorem GetClientBounds_wrapped_sum:
  "(xcb_get_geometry_reply c h = None \<longrightarrow>
      map_option fst (GetClientBounds c h) = Some JSRectangle0) \<and>
   (xcb_get_geometry_reply c h = Some reply \<and> ancestors_read c h reply anc \<longrightarrow>
      map_option fst (GetClientBounds c h) =
        Some \<lparr>rx = signed_take_bit 15 (fst (offset_sum reply anc)),
              ry = signed_take_bit 15 (snd (offset_sum reply anc)),
              rwidth = uint (geo_width reply), rheight = uint (geo_height reply)\<rparr>) \<and>
   (xcb_get_geometry_reply c h = Some reply \<and> ancestors_read c h reply anc \<and>
    - 32768 \<le> fst (offset_sum reply anc) \<and> fst (offset_sum reply anc) < 32768 \<and>
    - 32768 \<le> snd (offset_sum reply anc) \<and> snd (offset_sum reply anc) < 32768 \<longrightarrow>
      map_option fst (GetClientBounds c h) =
        Some \<lparr>rx = fst (offset_sum reply anc), ry = snd (offset_sum reply anc),
              rwidth = uint (geo_width reply), rheight = uint (geo_height reply)\<rparr>)"
proof (intro conjI impI)
  assume "xcb_get_geometry_reply c h = None"
  then show "map_option fst (GetClientBounds c h) = Some JSRectangle0"
    by (simp add: GetClientBounds_def)
next
  assume a: "xcb_get_geometry_reply c h = Some reply \<and> ancestors_read c h reply anc"
  from loop_sums [of c h reply anc "geo_x reply" "geo_y reply"] a
  obtain rq where "GetClientBounds_loop c reply (geo_x reply) (geo_y reply) h =
     Some ((geo_x reply + sum_list (map (\<lambda>p. geo_x (snd p)) anc),
            geo_y reply + sum_list (map (\<lambda>p. geo_y (snd p)) anc)), rq)"
    by auto
  with a show "map_option fst (GetClientBounds c h) =
        Some \<lparr>rx = signed_take_bit 15 (fst (offset_sum reply anc)),
              ry = signed_take_bit 15 (snd (offset_sum reply anc)),
              rwidth = uint (geo_width reply), rheight = uint (geo_height reply)\<rparr>"
    by (simp add: GetClientBounds_def wrapped_offsets)
next
  assume a: "xcb_get_geometry_reply c h = Some reply \<and> ancestors_read c h reply anc \<and>
    - 32768 \<le> fst (offset_sum reply anc) \<and> fst (offset_sum reply anc) < 32768 \<and>
    - 32768 \<le> snd (offset_sum reply anc) \<and> snd (offset_sum reply anc) < 32768"
  from loop_sums [of c h reply anc "geo_x reply" "geo_y reply"] a
  obtain rq where "GetClientBounds_loop c reply (geo_x reply) (geo_y reply) h =
     Some ((geo_x reply + sum_list (map (\<lambda>p. geo_x (snd p)) anc),
            geo_y reply + sum_list (map (\<lambda>p. geo_y (snd p)) anc)), rq)"
    by auto
  moreover from a have "signed_take_bit 15 (fst (offset_sum reply anc)) = fst (offset_sum reply anc)"
    and "signed_take_bit 15 (snd (offset_sum reply anc)) = snd (offset_sum reply anc)"
    by (simp_all add: signed_take_bit_int_eq_self_iff)
  ultimately show "map_option fst (GetClientBounds c h) =
        Some \<lparr>rx = fst (offset_sum reply anc), ry = snd (offset_sum reply anc),
              rwidth = uint (geo_width reply), rheight = uint (geo_height reply)\<rparr>"
    using a by (simp add: GetClientBounds_def wrapped_offsets)
qed

lemma view_chain: "ancestors_read view_conn 30 view_reply30 [(20, view_reply20)]"
  by (simp add: view_conn_def view_reply30_def view_reply20_def)

lemma view_offsets: "offset_sum view_reply30 [(20, view_reply20)] = (100, 200)"
  by (simp add: offset_sum_def view_reply30_def view_reply20_def)

theorem GetClientBounds_wrapped_sum_witness:
  "xcb_get_geometry_reply view_conn 99 = None \<and>
   map_option fst (GetClientBounds view_conn 99) = Some JSRectangle0 \<and>
   xcb_get_geometry_reply view_conn 30 = Some view_reply30 \<and>
   ancestors_read view_conn 30 view_reply30 [(20, view_reply20)] \<and>
   offset_sum view_reply30 [(20, view_reply20)] = (100, 200) \<and>
   map_option fst (GetClientBounds view_conn 30) =
     Some \<lparr>rx = 100, ry = 200, rwidth = 640, rheight = 480\<rparr>"
proof -
  have n: "xcb_get_geometry_reply view_conn 99 = None"
    by (simp add: view_conn_def)
  have g: "xcb_get_geometry_reply view_conn 30 = Some view_reply30"
    by (simp add: view_conn_def)
  have wh: "uint (geo_width view_reply30) = 640" "uint (geo_height view_reply30) = 480"
    by (simp_all add: view_reply30_def)
  have w: "signed_take_bit 15 (100 :: int) = 100" "signed_take_bit 15 (200 :: int) = 200"
    by (simp_all add: signed_take_bit_int_eq_self_iff)
  from GetClientBounds_wrapped_sum [of view_conn 99]
    GetClientBounds_wrapped_sum [of view_conn 30 view_reply30 "[(20, view_reply20)]"]
    n g view_chain
  show ?thesis by (simp add: view_offsets wh w)
qed

text \<open>
  C4 as stated fails where the sum leaves the 16-bit range: offsets 20000 and 20000 sum
  to 40000, and the position returned is -25536.
\<close>

theorem GetClientBounds_wraps:
  "xcb_get_geometry_reply far_conn 3 = Some far_reply3 \<and>
   ancestors_read far_conn 3 far_reply3 [(2, far_reply2)] \<and>
   offset_sum far_reply3 [(2, far_reply2)] = (40000, 150) \<and>
   map_option fst (GetClientBounds far_conn 3) =
     Some \<lparr>rx = - 25536, ry = 150, rwidth = 640, rheight = 480\<rparr>"
  by (simp add: far_conn_def far_reply3_def far_reply2_def offset_sum_def GetClientBounds_def
        GetClientBounds_loop.simps)


section \<open>The capture engine: proofs\<close>

lemma fold_holds_queries: "list_all is_query rq \<Longrightarrow> fold holds rq rs = rs"
  by (induction rq arbitrary: rs) (auto simp: is_query_def holds_def split: action.splits)

lemma loop_queries:
  assumes "GetClientBounds_loop c reply x y win = Some r"
  shows "list_all is_query (snd r)"
  by (rule GetClientBounds_loop.raw_induct
        [of "\<lambda>c reply x y win r. list_all is_query (snd r)" "((((c, reply), x), y), win)" r,
         simplified, OF _ assms])
     (auto simp: is_query_def split: option.splits if_splits Option.bind_splits)

lemma GetClientBounds_queries:
  "GetClientBounds c h = Some (b, rq) \<Longrightarrow> list_all is_query rq"
  by (auto simp: GetClientBounds_def is_query_def split: option.splits Option.bind_splits
           dest: loop_queries)

lemma fold_holds_desktop_rects: "fold holds (desktop_rects d offset rects) rs = rs"
  by (induction rects arbitrary: rs) (auto simp: XShmCapture_copy_def holds_def)

lemma fold_holds_window_rects: "fold holds (window_rects d rects) rs = rs"
  by (induction rects arbitrary: rs) (auto simp: XShmCapture_copy_def holds_def)

lemma desktop_rects_map:
  "desktop_rects d offset rects =
     map (\<lambda>r. shm_copy d (data r) (size_bytes r) (rx (rect r) + rx offset)
                 (ry (rect r) + ry offset) (rwidth (rect r)) (rheight (rect r))) rects"
  by (induction rects) (auto simp: XShmCapture_copy_def)

lemma view_bounds:
  "GetClientBounds view_conn 30 =
     Some (\<lparr>rx = 100, ry = 200, rwidth = 640, rheight = 480\<rparr>,
           [xcb_get_geometry 30, xcb_query_tree 30, xcb_get_geometry 20, xcb_query_tree 20])"
  by (simp add: GetClientBounds_def view_conn_def view_reply30_def view_reply20_def
        GetClientBounds_loop.simps)

text \<open>
  C6. In Desktop mode, with the client bounds of the source resolved to \<open>offset\<close>, the
  call attaches the shared memory to the root window, and for each rectangle, in order,
  copies from the root window the region whose origin is the rectangle's origin plus
  the position of \<open>offset\<close> and whose size is the rectangle's own.
\<close>

theorem desktop_capture_offset:
  assumes "GetClientBounds c wnd = Some (offset, rq)"
  shows "OSCaptureMulti c wnd Desktop rects =
           Some (None,
             [shm_attach (rootWindow c)] @ rq @
             map (\<lambda>r. shm_copy (rootWindow c) (data r) (size_bytes r)
                        (rx (rect r) + rx offset) (ry (rect r) + ry offset)
                        (rwidth (rect r)) (rheight (rect r))) rects @
             [shm_detach (rootWindow c)])"
  using assms
  by (simp add: OSCaptureMulti_def OSCaptureDesktopMulti_def XShmCapture_def
        XShmCapture_release_def desktop_rects_map)

text \<open>
  The rectangle \<open>{10, 10, 50, 50}\<close> against a source whose client bounds are at
  \<open>{100, 200}\<close> reads \<open>{110, 210, 50, 50}\<close> from the root window.
\<close>

theorem desktop_capture_offset_witness:
  "GetClientBounds view_conn 30 =
     Some (\<lparr>rx = 100, ry = 200, rwidth = 640, rheight = 480\<rparr>,
           [xcb_get_geometry 30, xcb_query_tree 30, xcb_get_geometry 20, xcb_query_tree 20]) \<and>
   OSCaptureMulti view_conn 30 Desktop
     [\<lparr>data = 0, size_bytes = 10000, rect = \<lparr>rx = 10, ry = 10, rwidth = 50, rheight = 50\<rparr>\<rparr>] =
     Some (None,
       [shm_attach 1,
        xcb_get_geometry 30, xcb_query_tree 30, xcb_get_geometry 20, xcb_query_tree 20,
        shm_copy 1 0 10000 110 210 50 50,
        shm_detach 1])"
proof -
  have root: "rootWindow view_conn = 1" by (simp add: view_conn_def)
  from desktop_capture_offset [OF view_bounds,
      of "[\<lparr>data = 0, size_bytes = 10000, rect = \<lparr>rx = 10, ry = 10, rwidth = 50, rheight = 50\<rparr>\<rparr>]"]
    view_bounds root
  show ?thesis by simp
qed

text \<open>
  C7. For a mode that is neither Desktop nor Window the call throws the range error
  ``Capture mode not supported'' and has sent no request: nothing is read from the
  connection and no buffer is written.
\<close>

theorem unsupported_mode:
  assumes "mode \<noteq> Desktop" and "mode \<noteq> Window"
  shows "OSCaptureMulti c wnd mode rects =
           Some (Some (RangeError ''Capture mode not supported''), [])"
  using assms by (cases mode) (simp_all add: OSCaptureMulti_def)

theorem unsupported_mode_witness:
  "OtherMode 2 \<noteq> Desktop \<and> OtherMode 2 \<noteq> Window \<and>
   OSCaptureMulti view_conn 30 (OtherMode 2)
     [\<lparr>data = 0, size_bytes = 10000, rect = \<lparr>rx = 10, ry = 10, rwidth = 50, rheight = 50\<rparr>\<rparr>] =
     Some (Some (RangeError ''Capture mode not supported''), [])"
proof -
  have a: "OtherMode 2 \<noteq> Desktop" and b: "OtherMode 2 \<noteq> Window" by simp_all
  from unsupported_mode [OF a b, of view_conn 30
      "[\<lparr>data = 0, size_bytes = 10000, rect = \<lparr>rx = 10, ry = 10, rwidth = 50, rheight = 50\<rparr>\<rparr>]"]
    a b
  show ?thesis by simp
qed

text \<open>
  C8. In Window mode, when the geometry query on the pixmap just named fails, the call
  returns without an exception after these four requests: redirect the window, name its
  pixmap, query the pixmap's geometry, free the pixmap; no rectangle is copied. And
  whenever a capture call returns, in any mode and with or without an exception, every
  pixmap it has named is freed and every shared memory segment it has attached is
  detached.
\<close>

theorem capture_releases:
  "(xcb_get_geometry_reply c (xcb_generate_id c 0) = None \<longrightarrow>
      OSCaptureMulti c wnd Window rects =
        Some (None,
          [xcb_composite_redirect_window wnd XCB_COMPOSITE_REDIRECT_AUTOMATIC,
           xcb_composite_name_window_pixmap wnd (xcb_generate_id c 0),
           xcb_get_geometry (xcb_generate_id c 0),
           xcb_free_pixmap (xcb_generate_id c 0)])) \<and>
   (OSCaptureMulti c wnd mode rects = Some (outcome, rq) \<longrightarrow> unreleased rq = [])"
proof (intro conjI impI)
  assume "xcb_get_geometry_reply c (xcb_generate_id c 0) = None"
  then show "OSCaptureMulti c wnd Window rects =
        Some (None,
          [xcb_composite_redirect_window wnd XCB_COMPOSITE_REDIRECT_AUTOMATIC,
           xcb_composite_name_window_pixmap wnd (xcb_generate_id c 0),
           xcb_get_geometry (xcb_generate_id c 0),
           xcb_free_pixmap (xcb_generate_id c 0)])"
    by (simp add: OSCaptureMulti_def OSCaptureWindowMulti_def Let_def)
next
  assume run: "OSCaptureMulti c wnd mode rects = Some (outcome, rq)"
  show "unreleased rq = []"
  proof (cases mode)
    case Desktop
    with run obtain offset q where b: "GetClientBounds c wnd = Some (offset, q)"
      and rq: "rq = XShmCapture (rootWindow c) @ q @ desktop_rects (rootWindow c) offset rects @
                 XShmCapture_release (rootWindow c)"
      by (auto simp: OSCaptureMulti_def OSCaptureDesktopMulti_def split: Option.bind_splits)
    from GetClientBounds_queries [OF b] have "\<And>rs. fold holds q rs = rs"
      by (rule fold_holds_queries)
    then show ?thesis
      by (simp add: unreleased_def rq XShmCapture_def XShmCapture_release_def
            fold_holds_desktop_rects holds_def)
  next
    case Window
    with run have rq: "rq = OSCaptureWindowMulti c wnd rects"
      by (simp add: OSCaptureMulti_def)
    show ?thesis
      by (simp add: unreleased_def rq OSCaptureWindowMulti_def Let_def XShmCapture_def
            XShmCapture_release_def fold_holds_window_rects holds_def is_query_def
          split: option.splits)
  next
    case (OtherMode v)
    with run show ?thesis by (simp add: OSCaptureMulti_def unreleased_def)
  qed
qed

text \<open>
  On \<open>view_conn\<close> the pixmap has no geometry and the call returns early; on
  \<open>nested_conn\<close> it has, and one rectangle is copied from the pixmap.
\<close>

theorem capture_releases_witness:
  "xcb_get_geometry_reply view_conn (xcb_generate_id view_conn 0) = None \<and>
   OSCaptureMulti view_conn 30 Window
     [\<lparr>data = 0, size_bytes = 10000, rect = \<lparr>rx = 10, ry = 10, rwidth = 50, rheight = 50\<rparr>\<rparr>] =
     Some (None,
       [xcb_composite_redirect_window 30 XCB_COMPOSITE_REDIRECT_AUTOMATIC,
        xcb_composite_name_window_pixmap 30 4096,
        xcb_get_geometry 4096,
        xcb_free_pixmap 4096]) \<and>
   OSCaptureMulti (nested_conn 512) 30 Window
     [\<lparr>data = 0, size_bytes = 10000, rect = \<lparr>rx = 10, ry = 10, rwidth = 50, rheight = 50\<rparr>\<rparr>] =
     Some (None,
       [xcb_composite_redirect_window 30 XCB_COMPOSITE_REDIRECT_AUTOMATIC,
        xcb_composite_name_window_pixmap 30 512,
        xcb_get_geometry 512,
        shm_attach 512,
        shm_copy 512 0 10000 10 10 50 50,
        xcb_free_pixmap 512,
        shm_detach 512]) \<and>
   unreleased
     [xcb_composite_redirect_window 30 XCB_COMPOSITE_REDIRECT_AUTOMATIC,
      xcb_composite_name_window_pixmap 30 512,
      xcb_get_geometry 512,
      shm_attach 512,
      shm_copy 512 0 10000 10 10 50 50,
      xcb_free_pixmap 512,
      shm_detach 512] = []"
proof -
  let ?rects = "[\<lparr>data = 0, size_bytes = 10000,
                  rect = \<lparr>rx = 10, ry = 10, rwidth = 50, rheight = 50\<rparr>\<rparr>]"
  have id0: "xcb_generate_id view_conn 0 = 4096" by (simp add: view_conn_def)
  have n: "xcb_get_geometry_reply view_conn (xcb_generate_id view_conn 0) = None"
    by (simp add: view_conn_def)
  have run: "OSCaptureMulti (nested_conn 512) 30 Window ?rects =
     Some (None,
       [xcb_composite_redirect_window 30 XCB_COMPOSITE_REDIRECT_AUTOMATIC,
        xcb_composite_name_window_pixmap 30 512,
        xcb_get_geometry 512,
        shm_attach 512,
        shm_copy 512 0 10000 10 10 50 50,
        xcb_free_pixmap 512,
        shm_detach 512])"
    by (simp add: OSCaptureMulti_def OSCaptureWindowMulti_def nested_conn_def Let_def
          XShmCapture_def XShmCapture_copy_def XShmCapture_release_def)
  from capture_releases [of view_conn 30 ?rects Window None
      "[xcb_composite_redirect_window 30 XCB_COMPOSITE_REDIRECT_AUTOMATIC,
        xcb_composite_name_window_pixmap 30 4096, xcb_get_geometry 4096, xcb_free_pixmap 4096]"]
    capture_releases [of "nested_conn 512" 30 ?rects Window None
      "[xcb_composite_redirect_window 30 XCB_COMPOSITE_REDIRECT_AUTOMATIC,
        xcb_composite_name_window_pixmap 30 512,
        xcb_get_geometry 512,
        shm_attach 512,
        shm_copy 512 0 10000 10 10 50 50,
        xcb_free_pixmap 512,
        shm_detach 512]"]
    n run id0
  show ?thesis by simp
qed


section \<open>Window discovery: proofs\<close>

lemma takeWhile_pad:
  "takeWhile (\<lambda>ch. ch \<noteq> NUL) (xs @ replicate n NUL) = takeWhile (\<lambda>ch. ch \<noteq> NUL) xs"
  by (induction xs) (auto simp: takeWhile_replicate)

lemma strlen_pad: "strlen (v @ replicate n NUL) = strlen v"
  by (simp add: strlen_def takeWhile_pad)

lemma strlen_le: "strlen v \<le> length v"
  by (simp add: strlen_def length_takeWhile_le)

lemma strlen_full: "strlen v = length v \<longleftrightarrow> NUL \<notin> set v"
  unfolding strlen_def by (induction v) auto

lemma c_str_drop_pad: "c_str (drop k (v @ replicate n NUL)) = c_str (drop k v)"
proof -
  have "drop k (v @ replicate n NUL) = drop k v @ replicate (n - (k - length v)) NUL"
    by simp
  then show ?thesis by (simp add: c_str_def takeWhile_pad)
qed

text \<open>
  The test of the source on the padded buffer is the test on the second
  null-terminated string of the value, as long as the read stays inside the buffer.
\<close>

lemma is_rs_class_spec:
  assumes "length v < long_length" and "length v = long_length - 1 \<longrightarrow> NUL \<in> set v"
  shows "is_rs_class v = Inr (class_name v \<in> {''RuneScape'', ''steam_app_1343400''})"
proof -
  have "strlen v < long_length - 1"
  proof (cases "NUL \<in> set v")
    case True
    then have "strlen v \<noteq> length v" by (simp add: strlen_full)
    with strlen_le [of v] assms(1) show ?thesis by simp
  next
    case False
    with assms have "length v < long_length - 1" by auto
    with strlen_le [of v] show ?thesis by simp
  qed
  then have "\<not> long_length \<le> strlen v + 1" by simp
  moreover have "class_name v = c_str (drop (strlen v + 1) v)"
    by (simp add: class_name_def c_str_def strlen_def)
  ultimately show ?thesis
    unfolding is_rs_class_def Let_def strlen_pad c_str_drop_pad by simp
qed

lemma wm_class_match_spec:
  "terminated w \<Longrightarrow> wm_class_match (wm_class w) = Inr (rs_match w)"
  by (auto simp: wm_class_match_def rs_match_def terminated_def is_rs_class_spec
           split: option.splits)

lemma absorb_pair:
  "absorb (w, d) st = (if rs_match w then take_deepest (handle w) d st else st)"
  by (simp add: absorb_def)

text \<open>The traversal takes in the descendants one after the other, in its own order.\<close>

lemma traversal_fold:
  "(\<forall>m \<in> set (descendants t depth). terminated (fst m)) \<Longrightarrow>
     GetRsHandlesRecursively t st depth = Inr (fold absorb (descendants t depth) st)"
  "(\<forall>m \<in> set (descendants_of_children ts depth). terminated (fst m)) \<Longrightarrow>
     for_children ts st depth = Inr (fold absorb (descendants_of_children ts depth) st)"
proof (induction t st depth and ts st depth rule: GetRsHandlesRecursively_for_children.induct)
  case (1 h cls reply st depth)
  then show ?case by (cases reply) auto
next
  case (2 st depth)
  then show ?case by simp
next
  case (3 child rest st depth)
  from "3.prems" have tc: "terminated child" by simp
  have m: "wm_class_match (wm_class child) = Inr (rs_match child)"
    by (rule wm_class_match_spec [OF tc])
  let ?st1 = "if rs_match child then take_deepest (handle child) depth st else st"
  from "3.prems" have sub: "\<forall>m \<in> set (descendants child (depth + 1)). terminated (fst m)"
    by simp
  from "3.IH"(1) [OF m sub]
  have r1: "GetRsHandlesRecursively child ?st1 (depth + 1) =
              Inr (fold absorb (descendants child (depth + 1)) ?st1)" .
  from "3.prems" have rest: "\<forall>m \<in> set (descendants_of_children rest depth). terminated (fst m)"
    by simp
  from "3.IH"(2) [OF m r1 rest]
  have r2: "for_children rest (fold absorb (descendants child (depth + 1)) ?st1) depth =
              Inr (fold absorb (descendants_of_children rest depth)
                     (fold absorb (descendants child (depth + 1)) ?st1))" .
  from r1 r2 show ?case
    by (simp add: m absorb_pair)
qed

lemma max_depth_Max: "ms \<noteq> [] \<Longrightarrow> max_depth ms = Max (snd ` set ms)"
proof (induction ms)
  case Nil
  then show ?case by simp
next
  case (Cons m ms)
  show ?case
  proof (cases "ms = []")
    case True
    then show ?thesis by (simp add: max_depth_def)
  next
    case False
    with Cons.IH have "max_depth ms = Max (snd ` set ms)" by simp
    with False show ?thesis by (simp add: max_depth_def)
  qed
qed

lemma fold_absorb_filter:
  "fold absorb ds st = fold absorb (filter (\<lambda>m. rs_match (fst m)) ds) st"
  by (induction ds arbitrary: st) (auto simp: absorb_def)

text \<open>
  Taking in a list of matches from \<open>(out, k)\<close>: the depth kept is the larger of \<open>k\<close>
  and the largest depth of the list; \<open>out\<close> survives when no match is deeper than \<open>k\<close>,
  and the matches at the depth kept follow it.
\<close>

lemma fold_absorb_matches:
  "\<forall>m \<in> set ms. rs_match (fst m) \<Longrightarrow>
   fold absorb ms (out, k) =
     ((if max k (max_depth ms) = k then out else []) @
        map (\<lambda>m. handle (fst m)) (filter (\<lambda>m. snd m = max k (max_depth ms)) ms),
      max k (max_depth ms))"
proof (induction ms arbitrary: out k)
  case Nil
  then show ?case by (simp add: max_depth_def)
next
  case (Cons m ms)
  have md: "max_depth (m # ms) = max (snd m) (max_depth ms)"
    by (simp add: max_depth_def)
  from Cons.prems have rm: "rs_match (fst m)" and rest: "\<forall>m \<in> set ms. rs_match (fst m)"
    by simp_all
  consider (deeper) "snd m > k" | (tie) "snd m = k" | (shallow) "snd m < k"
    by linarith
  then show ?case
  proof cases
    case deeper
    then have st: "absorb m (out, k) = ([handle (fst m)], snd m)"
      by (simp add: absorb_def rm take_deepest_def)
    from deeper have eq: "max k (max_depth (m # ms)) = max (snd m) (max_depth ms)"
      by (simp add: md)
    from deeper have ne: "max (snd m) (max_depth ms) \<noteq> k" by simp
    show ?thesis
      by (simp only: fold_simps st Cons.IH [OF rest] eq) (use ne in auto)
  next
    case tie
    then have st: "absorb m (out, k) = (out @ [handle (fst m)], k)"
      by (simp add: absorb_def rm take_deepest_def)
    from tie have eq: "max k (max_depth (m # ms)) = max k (max_depth ms)"
      by (simp add: md)
    show ?thesis
      by (simp only: fold_simps st Cons.IH [OF rest] eq) (use tie in auto)
  next
    case shallow
    then have st: "absorb m (out, k) = (out, k)"
      by (simp add: absorb_def rm take_deepest_def)
    from shallow have eq: "max k (max_depth (m # ms)) = max k (max_depth ms)"
      by (simp add: md)
    from shallow have ne: "snd m \<noteq> max k (max_depth ms)" by simp
    show ?thesis
      by (simp only: fold_simps st Cons.IH [OF rest] eq) (use ne in auto)
  qed
qed

lemma demo_in_bounds: "in_bounds demo_tree"
  by (simp add: in_bounds_def demo_tree_def leaf_def terminated_def rs_value_def steam_value_def
        capped_value_def long_length_def NUL_def)

lemma demo_deepest: "deepest_matches demo_tree = [15, 16]"
  by (simp add: deepest_matches_def demo_tree_def leaf_def rs_match_def class_name_def
        rs_value_def steam_value_def capped_value_def long_length_def NUL_def)

text \<open>
  The traversal on a window tree on which no read leaves the buffer: discovery returns,
  in the order of the traversal, the handles of exactly those descendants of the root
  that match and lie at the largest depth at which any descendant matches. A descendant
  matches when its class property is readable, its length is positive and below the
  read cap of 4096, and its class name is RuneScape or steam_app_1343400. So a value
  whose length is the cap never matches, matches above the largest depth are dropped
  and matches at that depth are all kept.
\<close>

theorem discovery_deepest:
  assumes "in_bounds root"
  shows "OSGetRsHandles root = Inr (deepest_matches root)"
proof -
  let ?ms = "filter (\<lambda>m. rs_match (fst m)) (descendants root 0)"
  from assms have "\<forall>m \<in> set (descendants root 0). terminated (fst m)"
    by (simp add: in_bounds_def)
  then have "GetRsHandlesRecursively root ([], 0) 0 = Inr (fold absorb (descendants root 0) ([], 0))"
    by (rule traversal_fold(1))
  also have "fold absorb (descendants root 0) ([], 0) = fold absorb ?ms ([], 0)"
    by (rule fold_absorb_filter)
  also have "\<dots> = (map (\<lambda>m. handle (fst m)) (filter (\<lambda>m. snd m = max_depth ?ms) ?ms),
                   max_depth ?ms)"
    by (subst fold_absorb_matches) simp_all
  finally have run: "OSGetRsHandles root =
      Inr (map (\<lambda>m. handle (fst m)) (filter (\<lambda>m. snd m = max_depth ?ms) ?ms))"
    by (simp add: OSGetRsHandles_def)
  show ?thesis
  proof (cases "?ms = []")
    case True
    with run show ?thesis by (simp add: deepest_matches_def)
  next
    case False
    from max_depth_Max [OF False] run show ?thesis
      by (simp add: deepest_matches_def Let_def)
  qed
qed

text \<open>
  On \<open>demo_tree\<close> the matches at depth 0 and 2 give way to the two at depth 4, and the
  window at depth 5 with a value of 4096 bytes is not taken.
\<close>

lemma discovery_deepest_demo:
  "in_bounds demo_tree \<and> OSGetRsHandles demo_tree = Inr [15, 16]"
  using discovery_deepest [OF demo_in_bounds] demo_in_bounds demo_deepest by simp

text \<open>
  The length test \<open>len < long_length\<close> lets a value of \<open>long_length - 1\<close> bytes through.
  When none of its bytes is zero, the first string fills the buffer up to its last byte
  and the class name is looked for one byte behind the buffer.
\<close>

lemma is_rs_class_out_of_bounds:
  assumes "length v = long_length - 1" and "NUL \<notin> set v"
  shows "is_rs_class v = Inl OutOfBoundsRead"
proof -
  from assms(2) have "strlen v = length v" by (simp add: strlen_full)
  with assms(1) have "strlen v + 1 = long_length" by (simp add: long_length_def)
  then show ?thesis
    unfolding is_rs_class_def Let_def strlen_pad by simp
qed

lemma unterminated_match: "wm_class_match (Some unterminated_value) = Inl OutOfBoundsRead"
proof -
  have "is_rs_class unterminated_value = Inl OutOfBoundsRead"
    by (rule is_rs_class_out_of_bounds)
       (simp_all add: unterminated_value_def long_length_def NUL_def)
  then show ?thesis
    by (simp add: wm_class_match_def unterminated_value_def long_length_def)
qed

lemma rs_value_match: "wm_class_match (Some rs_value) = Inr True"
proof -
  have "terminated (leaf 10 (Some rs_value))"
    by (simp add: terminated_def leaf_def rs_value_def long_length_def)
  from wm_class_match_spec [OF this] show ?thesis
    by (simp add: leaf_def rs_match_def class_name_def rs_value_def long_length_def NUL_def)
qed

text \<open>
  C5. The claim: discovery visits every descendant of the root and returns exactly the
  handles of the windows whose class property is readable, not empty, shorter than the
  read cap and names a class of the allow-list, those at the largest depth at which
  there is a match. On \<open>unterminated_tree\<close> that is window 10 alone. The source does
  not get there: at window 11, whose value has 4095 bytes and no zero byte, \<open>strcmp\<close>
  is called on the address one behind the 4096-byte buffer.
\<close>

theorem discovery_reads_out_of_bounds:
  "OSGetRsHandles unterminated_tree = Inl OutOfBoundsRead \<and>
   deepest_matches unterminated_tree = [10]"
proof
  show "OSGetRsHandles unterminated_tree = Inl OutOfBoundsRead"
    by (simp add: OSGetRsHandles_def unterminated_tree_def leaf_def rs_value_match
          unterminated_match)
  show "deepest_matches unterminated_tree = [10]"
    by (simp add: deepest_matches_def unterminated_tree_def leaf_def rs_match_def class_name_def
          rs_value_def unterminated_value_def long_length_def NUL_def)
qed

end
